theory Spec2Isabelle
  imports Main "HOL-Library.Sublist" "HOL-Library.Char_ord" "HOL-Library.List_Lexorder"
begin

section \<open>Strings and POSIX paths\<close>

text \<open>
  Paths are \<open>string\<close>s (byte lists). \<open>str.lower\<close> is modelled on the ASCII letters; every
  extension the program tests is ASCII and no non-ASCII code point lowers to one of their
  letters, so the suffix tests agree with Python's on UTF-8 encoded paths.
\<close>

definition lower_char :: "char \<Rightarrow> char" where
  "lower_char c =
     (case map_of (zip ''ABCDEFGHIJKLMNOPQRSTUVWXYZ'' ''abcdefghijklmnopqrstuvwxyz'') c of
        Some l \<Rightarrow> l
      | None \<Rightarrow> c)"

definition lower :: "string \<Rightarrow> string" where
  "lower s = map lower_char s"

text \<open>\<open>s.endswith(e)\<close> and \<open>s.endswith((e1, e2, ...))\<close>.\<close>

definition endswith :: "string \<Rightarrow> string \<Rightarrow> bool" where
  "endswith s e = (length e \<le> length s \<and> drop (length s - length e) s = e)"

definition endswith_any :: "string \<Rightarrow> string list \<Rightarrow> bool" where
  "endswith_any s es = list_ex (endswith s) es"

definition sep :: char where
  "sep = CHR ''/''"

definition extsep :: char where
  "extsep = CHR ''.''"

text \<open>\<open>p[:p.rfind('/') + 1]\<close> and \<open>p[p.rfind('/') + 1:]\<close>.\<close>

definition head_part :: "string \<Rightarrow> string" where
  "head_part p = rev (dropWhile (\<lambda>c. c \<noteq> sep) (rev p))"

definition basename :: "string \<Rightarrow> string" where
  "basename p = rev (takeWhile (\<lambda>c. c \<noteq> sep) (rev p))"

definition rstrip_sep :: "string \<Rightarrow> string" where
  "rstrip_sep s = rev (dropWhile (\<lambda>c. c = sep) (rev s))"

definition dirname :: "string \<Rightarrow> string" where
  "dirname p =
     (let head = head_part p
      in if head \<noteq> [] \<and> head \<noteq> replicate (length head) sep then rstrip_sep head else head)"

text \<open>\<open>os.path.join(a, b)\<close> with two arguments, as every call of the program has.\<close>

definition join :: "string \<Rightarrow> string \<Rightarrow> string" where
  "join a b =
     (if b \<noteq> [] \<and> hd b = sep then b
      else if a = [] \<or> last a = sep then a @ b
      else a @ [sep] @ b)"

text \<open>
  \<open>os.path.splitext\<close>: the extension starts at the last dot of the last path component,
  unless that component has nothing but dots before it.
\<close>

definition splitext :: "string \<Rightarrow> string \<times> string" where
  "splitext p =
     (let name = basename p;
          ext = extsep # rev (takeWhile (\<lambda>c. c \<noteq> extsep) (rev name));
          stem = take (length name - length ext) name
      in if extsep \<in> set name \<and> list_ex (\<lambda>c. c \<noteq> extsep) stem
         then (take (length p - length ext) p, ext)
         else (p, []))"

text \<open>\<open>s.replace('.CPI', '')\<close>: every occurrence, left to right, upper case only.\<close>

fun replace_CPI :: "string \<Rightarrow> string" where
  "replace_CPI [] = []"
| "replace_CPI (c # cs) =
     (if take 4 (c # cs) = ''.CPI'' then replace_CPI (drop 3 cs) else c # replace_CPI cs)"

text \<open>\<open>str(n)\<close> for the counters printed at the end of a run.\<close>

fun str_nat :: "nat \<Rightarrow> string" where
  "str_nat n =
     (if n < 10 then [''0123456789'' ! n]
      else str_nat (n div 10) @ [''0123456789'' ! (n mod 10)])"

declare str_nat.simps [simp del]

definition str_int :: "int \<Rightarrow> string" where
  "str_int i = (if i < 0 then CHR ''-'' # str_nat (nat (- i)) else str_nat (nat i))"

section \<open>The environment: libraries and the operating system\<close>

text \<open>
  What the program obtains from \<open>ffmpeg\<close>, \<open>datetime\<close>, \<open>os\<close> and \<open>glob\<close> is a parameter of
  the model. A file system maps a path to what is there.
\<close>

datatype node = RegularFile | Directory

type_synonym filesystem = "string \<Rightarrow> node option"

record datetime =
  year :: nat
  month :: nat
  day :: nat
  hour :: nat
  minute :: nat
  second :: nat
  microsecond :: nat

text \<open>One entry of \<open>probe['streams']\<close>: its \<open>tags\<close> dictionary when it has one.\<close>

record stream =
  tags :: "(string \<times> string) list option"

text \<open>
  \<open>ffmpeg.probe\<close> raises, or returns a dictionary whose \<open>streams\<close> entry may be missing.
\<close>

datatype probe_result = ProbeRaised | ProbeReturned "stream list option"

datatype codec = ToJpg | ToM2ts

text \<open>
  \<open>ffmpeg.run\<close> returns, having written the output file, or raises with a message; a
  failed run may leave a truncated output file behind.
\<close>

datatype run_outcome = RunOk | RunRaised string bool

datatype exception = OSError_getctime | OverflowError_fromtimestamp | OSError_makedirs

text \<open>
  \<open>strptime\<close> is \<open>datetime.strptime(s, '%Y-%m-%dT%H:%M:%S.%fZ')\<close> (\<open>None\<close> for ValueError),
  \<open>strftime\<close> is \<open>dt.strftime('%m-%d-%Y')\<close>, \<open>getctime\<close> is \<open>os.path.getctime\<close> (\<open>None\<close> for
  OSError: the path is gone, or is a dangling link), \<open>fromtimestamp\<close> is
  \<open>datetime.fromtimestamp\<close> (\<open>None\<close> when the value is outside the platform's range; the
  time stamp itself is only handed on), \<open>scandir\<close> gives the names in a
  directory in the order the operating system lists them (the empty path is the current
  directory), \<open>glob_dirs\<close> the directories a directory pattern with wildcards expands to,
  \<open>makedirs_refused\<close> whether the operating system refuses to create a directory, and
  \<open>os_walk\<close> the triples \<open>os.walk\<close> yields.
\<close>

record env =
  probe :: "string \<Rightarrow> probe_result"
  strptime :: "string \<Rightarrow> datetime option"
  strftime :: "datetime \<Rightarrow> string"
  getctime :: "string \<Rightarrow> int option"
  fromtimestamp :: "int \<Rightarrow> datetime option"
  scandir :: "filesystem \<Rightarrow> string \<Rightarrow> string list"
  glob_dirs :: "filesystem \<Rightarrow> string \<Rightarrow> string list"
  makedirs_refused :: "filesystem \<Rightarrow> string \<Rightarrow> bool"
  ffmpeg_run :: "filesystem \<Rightarrow> codec \<Rightarrow> string \<Rightarrow> string \<Rightarrow> run_outcome"
  os_walk :: "string \<Rightarrow> (string \<times> string list \<times> string list) list"

text \<open>What a run changes: the file system, the encoder runs it made, and standard output.\<close>

record world =
  fs :: filesystem
  invocations :: "(codec \<times> string \<times> string) list"
  stdout :: "string list"

definition path_exists :: "world \<Rightarrow> string \<Rightarrow> bool" where
  "path_exists w p = (fs w p \<noteq> None)"

section \<open>\<open>MediaOrganizer.get_creation_date\<close>\<close>

text \<open>
  The loop over the streams returns at the first stream that has \<open>tags\<close> with a
  \<open>creation_time\<close> entry; this is the value it passes to \<open>strptime\<close>.
\<close>

fun tagged_creation_time :: "stream list \<Rightarrow> string option" where
  "tagged_creation_time [] = None"
| "tagged_creation_time (s # ss) =
     (case tags s of
        None \<Rightarrow> tagged_creation_time ss
      | Some t \<Rightarrow>
          (case map_of t ''creation_time'' of
             None \<Rightarrow> tagged_creation_time ss
           | Some creation_time \<Rightarrow> Some creation_time))"

text \<open>The \<open>try\<close> block: \<open>Some\<close> what it returns, \<open>None\<close> when it ends or raises.\<close>

definition probe_date :: "env \<Rightarrow> string \<Rightarrow> string option" where
  "probe_date e file_path =
     (case probe e file_path of
        ProbeRaised \<Rightarrow> None
      | ProbeReturned None \<Rightarrow> None
      | ProbeReturned (Some streams) \<Rightarrow>
          (case tagged_creation_time streams of
             None \<Rightarrow> None
           | Some creation_time \<Rightarrow>
               (case strptime e creation_time of
                  None \<Rightarrow> None
                | Some dt \<Rightarrow> Some (strftime e dt))))"

text \<open>The fallback after the \<open>try\<close> block, outside every handler.\<close>

definition ctime_date :: "env \<Rightarrow> string \<Rightarrow> exception + string" where
  "ctime_date e file_path =
     (case getctime e file_path of
        None \<Rightarrow> Inl OSError_getctime
      | Some t \<Rightarrow>
          (case fromtimestamp e t of
             None \<Rightarrow> Inl OverflowError_fromtimestamp
           | Some dt \<Rightarrow> Inr (strftime e dt)))"

definition get_creation_date :: "env \<Rightarrow> string \<Rightarrow> exception + string" where
  "get_creation_date e file_path =
     (case probe_date e file_path of
        Some date_str \<Rightarrow> Inr date_str
      | None \<Rightarrow> ctime_date e file_path)"

section \<open>\<open>os.makedirs(path, exist_ok=True)\<close>\<close>

lemma head_part_basename: "head_part p @ basename p = p"
proof -
  have "rev (takeWhile (\<lambda>c. c \<noteq> sep) (rev p) @ dropWhile (\<lambda>c. c \<noteq> sep) (rev p)) = p"
    by simp
  then show ?thesis
    unfolding head_part_def basename_def by (simp only: rev_append)
qed

lemma rstrip_sep_prefix: "prefix (rstrip_sep s) s"
proof -
  have "rev (takeWhile (\<lambda>c. c = sep) (rev s) @ dropWhile (\<lambda>c. c = sep) (rev s)) = s"
    by simp
  then have "rstrip_sep s @ rev (takeWhile (\<lambda>c. c = sep) (rev s)) = s"
    unfolding rstrip_sep_def by (simp only: rev_append)
  then show ?thesis
    by (metis prefixI)
qed

lemma dirname_prefix: "prefix (dirname p) p"
proof -
  have h: "prefix (head_part p) p"
    by (metis head_part_basename prefixI)
  have "prefix (rstrip_sep (head_part p)) p"
    using rstrip_sep_prefix h by (rule prefix_order.trans)
  with h show ?thesis
    by (simp add: dirname_def Let_def)
qed

lemma dirname_shorter: "dirname p \<noteq> p \<Longrightarrow> length (dirname p) < length p"
proof -
  assume ne: "dirname p \<noteq> p"
  obtain zs where zs: "p = dirname p @ zs"
    using dirname_prefix [of p] by (auto simp: prefix_def)
  with ne have "zs \<noteq> []"
    by auto
  then have "length (dirname p) < length (dirname p @ zs)"
    by simp
  with zs show ?thesis
    by simp
qed

text \<open>The directories above a path, nearest first, up to the root or the current directory.\<close>

function ancestors :: "string \<Rightarrow> string list" where
  "ancestors p = (let h = dirname p in if h = [] \<or> h = p then [] else h # ancestors h)"
  by pat_completeness auto
termination
  by (relation "measure length") (auto simp: dirname_shorter)

declare ancestors.simps [simp del]

text \<open>
  With \<open>exist_ok=True\<close> the call raises when the path or a directory above it is there and
  is no directory, or when the operating system refuses; otherwise the path and every
  directory above it are directories afterwards.
\<close>

definition makedirs :: "env \<Rightarrow> string \<Rightarrow> world \<Rightarrow> exception + world" where
  "makedirs e name w =
     (if list_ex (\<lambda>q. fs w q = Some RegularFile) (name # ancestors name)
         \<or> makedirs_refused e (fs w) name
      then Inl OSError_makedirs
      else Inr (w\<lparr>fs := (\<lambda>q. if q \<in> set (name # ancestors name) then Some Directory
                               else fs w q)\<rparr>))"

section \<open>\<open>glob.glob\<close> and \<open>MediaOrganizer.find_associated_video\<close>\<close>

text \<open>
  \<open>fnmatch\<close> patterns: \<open>*\<close>, \<open>?\<close>, a bracket expression when a closing bracket follows,
  and literal characters. Matching is case sensitive, as on POSIX.
\<close>

datatype glob_token = Star | Quest | Lit char | Class string

definition bracket_body :: "string \<Rightarrow> (string \<times> string) option" where
  "bracket_body cs =
     (let j = (if cs \<noteq> [] \<and> hd cs = CHR ''!'' then 1 else 0);
          k = (if j < length cs \<and> cs ! j = CHR '']'' then j + 1 else j);
          body = takeWhile (\<lambda>c. c \<noteq> CHR '']'') (drop k cs)
      in if k + length body < length cs
         then Some (take k cs @ body, drop (Suc (k + length body)) cs)
         else None)"

lemma bracket_body_shorter: "bracket_body cs = Some (stuff, rest) \<Longrightarrow> length rest < length cs"
  by (auto simp: bracket_body_def Let_def split: if_splits)

function tokens :: "string \<Rightarrow> glob_token list" where
  "tokens [] = []"
| "tokens (c # cs) =
     (if c = CHR ''*'' then Star # tokens cs
      else if c = CHR ''?'' then Quest # tokens cs
      else if c = CHR ''['' then
        (case bracket_body cs of
           None \<Rightarrow> Lit c # tokens cs
         | Some (stuff, rest) \<Rightarrow> Class stuff # tokens rest)
      else Lit c # tokens cs)"
  by pat_completeness auto
termination
  by (relation "measure length") (auto dest: bracket_body_shorter)

fun in_items :: "string \<Rightarrow> char \<Rightarrow> bool" where
  "in_items [] c = False"
| "in_items [a] c = (c = a)"
| "in_items (a # b # rest) c =
     (if b = CHR ''-'' \<and> rest \<noteq> []
      then (a \<le> c \<and> c \<le> hd rest) \<or> in_items (tl rest) c
      else c = a \<or> in_items (b # rest) c)"

definition class_matches :: "string \<Rightarrow> char \<Rightarrow> bool" where
  "class_matches stuff c =
     (if stuff \<noteq> [] \<and> hd stuff = CHR ''!'' then \<not> in_items (tl stuff) c
      else in_items stuff c)"

fun match_tokens :: "glob_token list \<Rightarrow> string \<Rightarrow> bool" where
  "match_tokens [] s = (s = [])"
| "match_tokens (Star # ts) [] = match_tokens ts []"
| "match_tokens (Star # ts) (c # s) = (match_tokens ts (c # s) \<or> match_tokens (Star # ts) s)"
| "match_tokens (Quest # ts) [] = False"
| "match_tokens (Quest # ts) (c # s) = match_tokens ts s"
| "match_tokens (Lit a # ts) [] = False"
| "match_tokens (Lit a # ts) (c # s) = (a = c \<and> match_tokens ts s)"
| "match_tokens (Class stuff # ts) [] = False"
| "match_tokens (Class stuff # ts) (c # s) = (class_matches stuff c \<and> match_tokens ts s)"

definition fnmatch :: "string \<Rightarrow> string \<Rightarrow> bool" where
  "fnmatch name pat = match_tokens (tokens pat) name"

definition has_magic :: "string \<Rightarrow> bool" where
  "has_magic s = list_ex (\<lambda>c. c = CHR ''*'' \<or> c = CHR ''?'' \<or> c = CHR ''['') s"

definition ishidden :: "string \<Rightarrow> bool" where
  "ishidden s = (s \<noteq> [] \<and> hd s = CHR ''.'')"

text \<open>The names of a directory that match a pattern, in the order the directory lists them.\<close>

definition glob1 :: "env \<Rightarrow> filesystem \<Rightarrow> string \<Rightarrow> string \<Rightarrow> string list" where
  "glob1 e f dir pattern =
     (let names = scandir e f dir;
          names = (if \<not> ishidden pattern then filter (\<lambda>x. \<not> ishidden x) names else names)
      in filter (\<lambda>n. fnmatch n pattern) names)"

definition glob0 :: "filesystem \<Rightarrow> string \<Rightarrow> string \<Rightarrow> string list" where
  "glob0 f dir base =
     (if base \<noteq> [] then (if f (join dir base) \<noteq> None then [base] else [])
      else (if f dir = Some Directory then [base] else []))"

text \<open>
  \<open>glob.glob(pathname)\<close>, not recursive. A directory part with wildcards is expanded by
  the environment's \<open>glob_dirs\<close>.
\<close>

definition glob_glob :: "env \<Rightarrow> filesystem \<Rightarrow> string \<Rightarrow> string list" where
  "glob_glob e f pathname =
     (let dir = dirname pathname; base = basename pathname
      in if \<not> has_magic pathname then
           (if base \<noteq> [] then (if f pathname \<noteq> None then [pathname] else [])
            else (if f dir = Some Directory then [pathname] else []))
         else if dir = [] then glob1 e f [] base
         else
           (let dirs = (if dir \<noteq> pathname \<and> has_magic dir
                        then glob_dirs e f dir else [dir])
            in concat (map (\<lambda>d. map (join d)
                 (if has_magic base then glob1 e f d base else glob0 f d base))
                 dirs)))"

definition find_associated_video :: "env \<Rightarrow> filesystem \<Rightarrow> string \<Rightarrow> string option" where
  "find_associated_video e f cpi_file =
     (let clip_name = replace_CPI (basename cpi_file);
          clip_dir = dirname (dirname cpi_file);
          video_files = glob_glob e f (join clip_dir (clip_name @ ''*.MTS''))
      in case video_files of [] \<Rightarrow> None | v # _ \<Rightarrow> Some v)"

section \<open>The conversion jobs\<close>

text \<open>
  Both return \<open>False\<close> without running the encoder when the output path exists. A run that
  raises is caught, printed, and answered with \<open>False\<close>.
\<close>

definition convert_image_to_jpg :: "env \<Rightarrow> string \<Rightarrow> string \<Rightarrow> world \<Rightarrow> bool \<times> world" where
  "convert_image_to_jpg e input_file output_file w =
     (if path_exists w output_file then (False, w)
      else
        (case ffmpeg_run e (fs w) ToJpg input_file output_file of
           RunOk \<Rightarrow>
             (True, w\<lparr>fs := (fs w)(output_file \<mapsto> RegularFile),
                      invocations := invocations w @ [(ToJpg, input_file, output_file)]\<rparr>)
         | RunRaised msg partial \<Rightarrow>
             (False, w\<lparr>fs := (if partial then (fs w)(output_file \<mapsto> RegularFile) else fs w),
                       invocations := invocations w @ [(ToJpg, input_file, output_file)],
                       stdout := stdout w @
                         [''Error converting '' @ input_file @ '' to JPG: '' @ msg]\<rparr>)))"

definition convert_to_m2ts :: "env \<Rightarrow> string \<Rightarrow> string \<Rightarrow> world \<Rightarrow> bool \<times> world" where
  "convert_to_m2ts e input_file output_file w =
     (if path_exists w output_file then (False, w)
      else
        (case ffmpeg_run e (fs w) ToM2ts input_file output_file of
           RunOk \<Rightarrow>
             (True, w\<lparr>fs := (fs w)(output_file \<mapsto> RegularFile),
                      invocations := invocations w @ [(ToM2ts, input_file, output_file)]\<rparr>)
         | RunRaised msg partial \<Rightarrow>
             (False, w\<lparr>fs := (if partial then (fs w)(output_file \<mapsto> RegularFile) else fs w),
                       invocations := invocations w @ [(ToM2ts, input_file, output_file)],
                       stdout := stdout w @
                         [''Error converting '' @ input_file @ '' to M2TS: '' @ msg]\<rparr>)))"

section \<open>\<open>MediaOrganizer.process_media_files\<close>\<close>

record config =
  camera_path :: string
  destination_root :: string

text \<open>The loop's variables: the two counters, and the world the loop acts on.\<close>

record loop_state =
  outside :: world
  processed_count :: int
  skipped_count :: int

text \<open>\<open>if convert(...): processed_count += 1 else: skipped_count += 1\<close>.\<close>

definition tally :: "bool \<times> world \<Rightarrow> loop_state \<Rightarrow> loop_state" where
  "tally r st =
     (if fst r then st\<lparr>outside := snd r, processed_count := processed_count st + 1\<rparr>
      else st\<lparr>outside := snd r, skipped_count := skipped_count st + 1\<rparr>)"

text \<open>The body of the loop after the directory is made: the chain of extension tests.\<close>

definition convert_by_extension ::
    "env \<Rightarrow> string \<Rightarrow> string \<Rightarrow> world \<Rightarrow> loop_state \<Rightarrow> loop_state" where
  "convert_by_extension e destination_dir file_path w st =
     (if endswith_any (lower file_path) [''.jpg'', ''.jpeg'', ''.png'', ''.bmp'', ''.tiff''] then
        (let output_filename = fst (splitext (basename file_path)) @ ''.jpg'';
             output_path = join destination_dir output_filename
         in tally (convert_image_to_jpg e file_path output_path w) st)
      else if endswith_any (lower file_path) [''.mts'', ''.cpi''] then
        (let output_filename = fst (splitext (basename file_path)) @ ''.m2ts'';
             output_path = join destination_dir output_filename
         in if endswith (lower file_path) ''.cpi'' then
              (case find_associated_video e (fs w) file_path of
                 None \<Rightarrow> st\<lparr>outside := w\<rparr>
               | Some video_file \<Rightarrow>
                   if video_file \<noteq> [] then tally (convert_to_m2ts e video_file output_path w) st
                   else st\<lparr>outside := w\<rparr>)
            else tally (convert_to_m2ts e file_path output_path w) st)
      else st\<lparr>outside := w\<rparr>)"

text \<open>
  A run ends normally, or an exception leaves the loop; the world is as the run left it
  either way.
\<close>

datatype result = Completed loop_state | Raised exception loop_state

definition process_file :: "env \<Rightarrow> string \<Rightarrow> string \<Rightarrow> loop_state \<Rightarrow> result" where
  "process_file e root file_path st =
     (case get_creation_date e file_path of
        Inl x \<Rightarrow> Raised x st
      | Inr date_str \<Rightarrow>
          (let destination_dir = join root date_str
           in case makedirs e destination_dir (outside st) of
                Inl x \<Rightarrow> Raised x st
              | Inr w \<Rightarrow> Completed (convert_by_extension e destination_dir file_path w st)))"

fun process_loop :: "env \<Rightarrow> string \<Rightarrow> string list \<Rightarrow> loop_state \<Rightarrow> result" where
  "process_loop e root [] st = Completed st"
| "process_loop e root (file_path # files) st =
     (case process_file e root file_path st of
        Raised x st' \<Rightarrow> Raised x st'
      | Completed st' \<Rightarrow> process_loop e root files st')"

definition walk_files :: "env \<Rightarrow> string \<Rightarrow> string list" where
  "walk_files e top_dir =
     concat (map (\<lambda>(root, dirs, filenames). map (join root) filenames) (os_walk e top_dir))"

definition process_media_files :: "env \<Rightarrow> config \<Rightarrow> world \<Rightarrow> result" where
  "process_media_files e cfg w =
     (let files = walk_files e (camera_path cfg)
      in case process_loop e (destination_root cfg) files
                \<lparr>outside = w, processed_count = 0, skipped_count = 0\<rparr> of
           Raised x st \<Rightarrow> Raised x st
         | Completed st \<Rightarrow>
             Completed (st\<lparr>outside := (outside st)\<lparr>stdout := stdout (outside st) @
               [[], ''Processing complete!'',
                ''Processed '' @ str_int (processed_count st) @ '' files'',
                ''Skipped '' @ str_int (skipped_count st) @ '' files (already existed or errors)'',
                ''Media organized in: '' @ destination_root cfg]\<rparr>\<rparr>))"

section \<open>\<open>Worker.run\<close> of the graphical front end\<close>

text \<open>
  The same loop without the counters; the progress signals are left out. An exception is
  caught at the end of \<open>run\<close>, which then reports failure.
\<close>

definition worker_convert :: "env \<Rightarrow> string \<Rightarrow> string \<Rightarrow> world \<Rightarrow> world" where
  "worker_convert e destination_dir file_path w =
     (if endswith_any (lower file_path) [''.jpg'', ''.jpeg'', ''.png'', ''.bmp'', ''.tiff''] then
        (let output_filename = fst (splitext (basename file_path)) @ ''.jpg'';
             output_path = join destination_dir output_filename
         in snd (convert_image_to_jpg e file_path output_path w))
      else if endswith_any (lower file_path) [''.mts'', ''.cpi''] then
        (let output_filename = fst (splitext (basename file_path)) @ ''.m2ts'';
             output_path = join destination_dir output_filename
         in if endswith (lower file_path) ''.cpi'' then
              (case find_associated_video e (fs w) file_path of
                 None \<Rightarrow> w
               | Some video_file \<Rightarrow>
                   if video_file \<noteq> [] then snd (convert_to_m2ts e video_file output_path w)
                   else w)
            else snd (convert_to_m2ts e file_path output_path w))
      else w)"

definition worker_file :: "env \<Rightarrow> string \<Rightarrow> string \<Rightarrow> world \<Rightarrow> exception + world" where
  "worker_file e destination_path file_path w0 =
     (case get_creation_date e file_path of
        Inl x \<Rightarrow> Inl x
      | Inr date_str \<Rightarrow>
          (let destination_dir = join destination_path date_str
           in case makedirs e destination_dir w0 of
                Inl x \<Rightarrow> Inl x
              | Inr w \<Rightarrow> Inr (worker_convert e destination_dir file_path w)))"

section \<open>A camera card, for the examples\<close>

definition pad2 :: "nat \<Rightarrow> string" where
  "pad2 n = (if n < 10 then CHR ''0'' # str_nat n else str_nat n)"

definition metadata_stream :: stream where
  "metadata_stream = \<lparr>tags = Some [(''creation_time'', ''2023-05-01T10:00:00.000000Z'')]\<rparr>"

definition exif_stream :: stream where
  "exif_stream = \<lparr>tags = Some [(''creation_time'', ''2023:05:01 10:00:00'')]\<rparr>"

definition card_probe :: "string \<Rightarrow> probe_result" where
  "card_probe p =
     (if p = ''/cam/a.jpg'' \<or> p = ''/cam/c.mts'' then ProbeReturned (Some [metadata_stream])
      else if p = ''/cam/b.png'' then ProbeReturned (Some [\<lparr>tags = None\<rparr>])
      else if p = ''/cam/x.mts'' then ProbeReturned (Some [exif_stream, metadata_stream])
      else ProbeRaised)"

definition card_strptime :: "string \<Rightarrow> datetime option" where
  "card_strptime s =
     (if s = ''2023-05-01T10:00:00.000000Z''
      then Some \<lparr>year = 2023, month = 5, day = 1, hour = 10, minute = 0, second = 0,
                 microsecond = 0\<rparr>
      else None)"

definition card_strftime :: "datetime \<Rightarrow> string" where
  "card_strftime dt = pad2 (month dt) @ ''-'' @ pad2 (day dt) @ ''-'' @ str_nat (year dt)"

definition card_getctime :: "string \<Rightarrow> int option" where
  "card_getctime p = (if p = ''/cam/dangling.jpg'' then None else Some 1641812400)"

definition card_fromtimestamp :: "int \<Rightarrow> datetime option" where
  "card_fromtimestamp t =
     (if t = 1641812400
      then Some \<lparr>year = 2022, month = 1, day = 10, hour = 11, minute = 0, second = 0,
                 microsecond = 0\<rparr>
      else None)"

definition card_scandir :: "filesystem \<Rightarrow> string \<Rightarrow> string list" where
  "card_scandir f d =
     (if d = ''/cam/BDMV'' then [''CLIPINF'', ''CLIP001B.MTS'', ''CLIP001A.MTS''] else [])"

definition card_ffmpeg_run :: "filesystem \<Rightarrow> codec \<Rightarrow> string \<Rightarrow> string \<Rightarrow> run_outcome" where
  "card_ffmpeg_run f c i out =
     (if i = ''/cam/bad.jpg'' then RunRaised ''ffmpeg error (see stderr output for detail)'' False
      else RunOk)"

definition card :: env where
  "card = \<lparr>probe = card_probe, strptime = card_strptime, strftime = card_strftime,
            getctime = card_getctime, fromtimestamp = card_fromtimestamp,
            scandir = card_scandir, glob_dirs = (\<lambda>f d. []),
            makedirs_refused = (\<lambda>f p. False), ffmpeg_run = card_ffmpeg_run,
            os_walk = (\<lambda>top_dir. [(''/cam'', [''BDMV''], [''a.jpg'', ''b.png'', ''c.mts''])])\<rparr>"

definition empty_dest :: world where
  "empty_dest = \<lparr>fs = [''/dest'' \<mapsto> Directory], invocations = [], stdout = []\<rparr>"

definition processed_dest :: world where
  "processed_dest =
     \<lparr>fs = [''/dest'' \<mapsto> Directory, ''/dest/05-01-2023'' \<mapsto> Directory,
             ''/dest/01-10-2022'' \<mapsto> Directory,
             ''/dest/05-01-2023/a.jpg'' \<mapsto> RegularFile,
             ''/dest/01-10-2022/b.jpg'' \<mapsto> RegularFile,
             ''/dest/05-01-2023/c.m2ts'' \<mapsto> RegularFile],
      invocations = [], stdout = []\<rparr>"

definition dated_dest :: world where
  "dated_dest =
     empty_dest\<lparr>fs := (\<lambda>q. if q \<in> set [''/dest/01-10-2022'', ''/dest'', ''/'']
                            then Some Directory else fs empty_dest q)\<rparr>"

definition fresh :: "world \<Rightarrow> loop_state" where
  "fresh w = \<lparr>outside = w, processed_count = 0, skipped_count = 0\<rparr>"

lemmas card_defs = card_def card_probe_def card_strptime_def card_strftime_def card_getctime_def
  card_fromtimestamp_def card_scandir_def card_ffmpeg_run_def metadata_stream_def exif_stream_def
  pad2_def

section \<open>The specification's reading of the components\<close>

datatype category = StillImage | VideoClip | VideoIndex | Unrecognized

text \<open>
  The file classifier as the specification words it: a case-insensitive match of the
  path's ending against the image extensions, the clip extension and the index extension.
\<close>

definition spec_category :: "string \<Rightarrow> category" where
  "spec_category p =
     (if \<exists>ext \<in> set [''.jpg'', ''.jpeg'', ''.png'', ''.bmp'', ''.tiff'']. suffix ext (lower p)
      then StillImage
      else if suffix ''.mts'' (lower p) then VideoClip
      else if suffix ''.cpi'' (lower p) then VideoIndex
      else Unrecognized)"




text \<open>
  The conversion job of a file in a destination folder: where its output goes, and which
  file is encoded (the file itself, or the clip paired with an index file).
\<close>

definition output_path :: "string \<Rightarrow> string \<Rightarrow> string" where
  "output_path destination_dir file_path =
     join destination_dir (fst (splitext (basename file_path)) @
       (if endswith_any (lower file_path) [''.jpg'', ''.jpeg'', ''.png'', ''.bmp'', ''.tiff'']
        then ''.jpg'' else ''.m2ts''))"

definition job_input :: "env \<Rightarrow> filesystem \<Rightarrow> string \<Rightarrow> string option" where
  "job_input e f file_path =
     (case spec_category file_path of
        StillImage \<Rightarrow> Some file_path
      | VideoClip \<Rightarrow> Some file_path
      | VideoIndex \<Rightarrow>
          (case find_associated_video e f file_path of
             None \<Rightarrow> None
           | Some v \<Rightarrow> if v \<noteq> [] then Some v else None)
      | Unrecognized \<Rightarrow> None)"

section \<open>Classification by extension\<close>

lemma endswith_suffix: "endswith s e \<longleftrightarrow> suffix e s"
proof
  assume "endswith s e"
  then have "drop (length s - length e) s = e"
    by (simp add: endswith_def)
  then show "suffix e s"
    by (metis suffix_drop)
next
  assume "suffix e s"
  then obtain zs where "s = zs @ e"
    by (auto simp: suffix_def)
  then show "endswith s e"
    by (simp add: endswith_def)
qed

lemma suffix_clash:
  "suffix a l \<Longrightarrow> suffix b l \<Longrightarrow> prefix (rev a) (rev b) \<or> prefix (rev b) (rev a)"
  using suffix_same_cases [of a l b] by (auto simp: suffix_to_prefix)

lemma mts_exclusive:
  assumes "suffix ''.mts'' l"
  shows "\<not> suffix ''.jpg'' l" "\<not> suffix ''.jpeg'' l" "\<not> suffix ''.png'' l"
    "\<not> suffix ''.bmp'' l" "\<not> suffix ''.tiff'' l" "\<not> suffix ''.cpi'' l"
  using suffix_clash [OF assms] by fastforce+

lemma cpi_exclusive:
  assumes "suffix ''.cpi'' l"
  shows "\<not> suffix ''.jpg'' l" "\<not> suffix ''.jpeg'' l" "\<not> suffix ''.png'' l"
    "\<not> suffix ''.bmp'' l" "\<not> suffix ''.tiff'' l" "\<not> suffix ''.mts'' l"
  using suffix_clash [OF assms] by fastforce+

lemma spec_category_cases:
  "spec_category p = StillImage \<longleftrightarrow>
      (\<exists>ext \<in> set [''.jpg'', ''.jpeg'', ''.png'', ''.bmp'', ''.tiff'']. suffix ext (lower p))"
  "spec_category p = VideoClip \<longleftrightarrow> suffix ''.mts'' (lower p)"
  "spec_category p = VideoIndex \<longleftrightarrow> suffix ''.cpi'' (lower p)"
  using mts_exclusive [of "lower p"] cpi_exclusive [of "lower p"]
  by (auto simp: spec_category_def)

lemma convert_by_extension_category:
  "convert_by_extension e dd p w st =
     (case spec_category p of
        StillImage \<Rightarrow>
          tally (convert_image_to_jpg e p (join dd (fst (splitext (basename p)) @ ''.jpg'')) w) st
      | VideoClip \<Rightarrow>
          tally (convert_to_m2ts e p (join dd (fst (splitext (basename p)) @ ''.m2ts'')) w) st
      | VideoIndex \<Rightarrow>
          (case find_associated_video e (fs w) p of
             None \<Rightarrow> st\<lparr>outside := w\<rparr>
           | Some v \<Rightarrow>
               if v \<noteq> []
               then tally (convert_to_m2ts e v (join dd (fst (splitext (basename p)) @ ''.m2ts'')) w) st
               else st\<lparr>outside := w\<rparr>)
      | Unrecognized \<Rightarrow> st\<lparr>outside := w\<rparr>)"
  using mts_exclusive [of "lower p"] cpi_exclusive [of "lower p"]
  by (auto simp: convert_by_extension_def spec_category_def endswith_any_def endswith_suffix
        Let_def)

text \<open>
  C1. The loop treats a file by the category of its path, a case-insensitive match of the
  path's ending: an image extension makes it a still image, \<open>.mts\<close> a clip, \<open>.cpi\<close> an
  index file; the three tests exclude each other. Any other path leaves the counters, the
  encoder and standard output as they were.
\<close>

theorem classification_by_extension:
  "convert_by_extension e dd p w st =
     (case spec_category p of
        StillImage \<Rightarrow>
          tally (convert_image_to_jpg e p (join dd (fst (splitext (basename p)) @ ''.jpg'')) w) st
      | VideoClip \<Rightarrow>
          tally (convert_to_m2ts e p (join dd (fst (splitext (basename p)) @ ''.m2ts'')) w) st
      | VideoIndex \<Rightarrow>
          (case find_associated_video e (fs w) p of
             None \<Rightarrow> st\<lparr>outside := w\<rparr>
           | Some v \<Rightarrow>
               if v \<noteq> []
               then tally (convert_to_m2ts e v (join dd (fst (splitext (basename p)) @ ''.m2ts'')) w) st
               else st\<lparr>outside := w\<rparr>)
      | Unrecognized \<Rightarrow> st\<lparr>outside := w\<rparr>)
   \<and> (spec_category p = StillImage \<longleftrightarrow>
        (\<exists>ext \<in> set [''.jpg'', ''.jpeg'', ''.png'', ''.bmp'', ''.tiff'']. suffix ext (lower p)))
   \<and> (spec_category p = VideoClip \<longleftrightarrow> suffix ''.mts'' (lower p))
   \<and> (spec_category p = VideoIndex \<longleftrightarrow> suffix ''.cpi'' (lower p))"
  using convert_by_extension_category [of e dd p w st] spec_category_cases [of p]
  by blast

theorem classification_by_extension_witness:
  "spec_category ''/cam/IMG_1.JPeG'' = StillImage
   \<and> spec_category ''/cam/notes.txt'' = Unrecognized
   \<and> convert_by_extension card ''/dest/01-10-2022'' ''/cam/notes.txt'' empty_dest (fresh empty_dest)
       = fresh empty_dest"
proof -
  have image: "spec_category ''/cam/IMG_1.JPeG'' = StillImage"
    by (simp add: spec_category_def lower_def lower_char_def suffix_to_prefix)
  have other: "spec_category ''/cam/notes.txt'' = Unrecognized"
    by (simp add: spec_category_def lower_def lower_char_def suffix_to_prefix)
  show ?thesis
    using classification_by_extension [of card "''/dest/01-10-2022''" "''/cam/notes.txt''"
        empty_dest "fresh empty_dest"] image other
    by (simp add: fresh_def)
qed

section \<open>The date resolver\<close>







text \<open>
  C6 (as amended). Every failure of the probe (the tool raises, the result has no
  streams, no stream carries the tag, the tag does not parse) ends in the fallback and is
  not seen outside. The resolver returns a date string whenever the file's creation time
  can be read; the only exceptions that leave it come from the fallback itself.
\<close>

theorem probe_failure_falls_back:
  "(probe e p = ProbeRaised \<or> probe e p = ProbeReturned None
      \<or> (\<exists>ss. probe e p = ProbeReturned (Some ss)
            \<and> (tagged_creation_time ss = None
               \<or> (\<exists>ct. tagged_creation_time ss = Some ct \<and> strptime e ct = None)))
     \<longrightarrow> get_creation_date e p = ctime_date e p)
   \<and> (getctime e p = Some t \<and> fromtimestamp e t = Some dt
     \<longrightarrow> get_creation_date e p
           = Inr (case probe_date e p of Some d \<Rightarrow> d | None \<Rightarrow> strftime e dt))
   \<and> (get_creation_date e p = Inl x
     \<longrightarrow> probe_date e p = None \<and> ctime_date e p = Inl x
         \<and> (x = OSError_getctime \<or> x = OverflowError_fromtimestamp))"
proof (intro conjI impI)
  assume "probe e p = ProbeRaised \<or> probe e p = ProbeReturned None
      \<or> (\<exists>ss. probe e p = ProbeReturned (Some ss)
            \<and> (tagged_creation_time ss = None
               \<or> (\<exists>ct. tagged_creation_time ss = Some ct \<and> strptime e ct = None)))"
  then have "probe_date e p = None"
    by (auto simp: probe_date_def)
  then show "get_creation_date e p = ctime_date e p"
    by (simp add: get_creation_date_def)
next
  assume "getctime e p = Some t \<and> fromtimestamp e t = Some dt"
  then show "get_creation_date e p
           = Inr (case probe_date e p of Some d \<Rightarrow> d | None \<Rightarrow> strftime e dt)"
    by (simp add: get_creation_date_def ctime_date_def split: option.splits)
next
  assume a: "get_creation_date e p = Inl x"
  then show "probe_date e p = None"
    by (simp add: get_creation_date_def split: option.splits)
  with a show "ctime_date e p = Inl x"
    by (simp add: get_creation_date_def)
  then show "x = OSError_getctime \<or> x = OverflowError_fromtimestamp"
    by (auto simp: ctime_date_def split: option.splits)
qed

theorem probe_failure_falls_back_witness:
  "probe card ''/cam/notes.txt'' = ProbeRaised
   \<and> getctime card ''/cam/notes.txt'' = Some 1641812400
   \<and> fromtimestamp card 1641812400
       = Some \<lparr>year = 2022, month = 1, day = 10, hour = 11, minute = 0, second = 0,
               microsecond = 0\<rparr>
   \<and> get_creation_date card ''/cam/notes.txt'' = Inr ''01-10-2022''"
proof -
  have pr: "probe card ''/cam/notes.txt'' = ProbeRaised"
    by (simp add: card_def card_probe_def)
  have ct: "getctime card ''/cam/notes.txt'' = Some 1641812400"
    by (simp add: card_def card_getctime_def)
  have ft: "fromtimestamp card 1641812400
       = Some \<lparr>year = 2022, month = 1, day = 10, hour = 11, minute = 0, second = 0,
               microsecond = 0\<rparr>"
    by (simp add: card_def card_fromtimestamp_def)
  have fm: "strftime card \<lparr>year = 2022, month = 1, day = 10, hour = 11, minute = 0, second = 0,
               microsecond = 0\<rparr> = ''01-10-2022''"
    by (simp add: card_def card_strftime_def pad2_def str_nat.simps)
  have pd: "probe_date card ''/cam/notes.txt'' = None"
    using pr by (simp add: probe_date_def)
  have "get_creation_date card ''/cam/notes.txt''
      = Inr (case probe_date card ''/cam/notes.txt'' of
               Some d \<Rightarrow> d
             | None \<Rightarrow> strftime card \<lparr>year = 2022, month = 1, day = 10, hour = 11,
                 minute = 0, second = 0, microsecond = 0\<rparr>)"
    using probe_failure_falls_back [of card "''/cam/notes.txt''" 1641812400
        "\<lparr>year = 2022, month = 1, day = 10, hour = 11, minute = 0, second = 0, microsecond = 0\<rparr>"
        OSError_getctime] ct ft
    by blast
  then have "get_creation_date card ''/cam/notes.txt'' = Inr ''01-10-2022''"
    by (simp only: pd fm option.case)
  with pr ct ft show ?thesis
    by simp
qed

text \<open>
  The resolver does raise: for a path whose creation time cannot be read (a dangling
  link, a file removed since the walk) the probe's failure is caught and the fallback's
  is not.
\<close>

theorem resolver_raises_counterexample:
  "probe card ''/cam/dangling.jpg'' = ProbeRaised
   \<and> getctime card ''/cam/dangling.jpg'' = None
   \<and> get_creation_date card ''/cam/dangling.jpg'' = Inl OSError_getctime"
  by (simp add: get_creation_date_def probe_date_def ctime_date_def card_defs)

section \<open>What the steps of the loop change\<close>

lemma makedirs_effect:
  assumes "makedirs e name w = Inr w'"
  shows "invocations w' = invocations w" and "stdout w' = stdout w"
    and "fs w' name = Some Directory"
    and "fs w' q = Some RegularFile \<longleftrightarrow> fs w q = Some RegularFile"
    and "fs w q = Some Directory \<Longrightarrow> fs w' q = Some Directory"
    and "path_exists w q \<Longrightarrow> path_exists w' q"
  using assms
  by (auto simp: makedirs_def path_exists_def list_ex_iff split: if_splits)

lemma convert_image_existing:
  "path_exists w out \<Longrightarrow> convert_image_to_jpg e i out w = (False, w)"
  by (simp add: convert_image_to_jpg_def)

lemma convert_m2ts_existing:
  "path_exists w out \<Longrightarrow> convert_to_m2ts e i out w = (False, w)"
  by (simp add: convert_to_m2ts_def)

lemma tally_skipped:
  "tally (False, w) st = st\<lparr>outside := w, skipped_count := skipped_count st + 1\<rparr>"
  by (simp add: tally_def)

lemma image_test: "endswith_any (lower p) [''.jpg'', ''.jpeg'', ''.png'', ''.bmp'', ''.tiff'']
    \<longleftrightarrow> spec_category p = StillImage"
  by (simp add: spec_category_cases endswith_any_def endswith_suffix)

text \<open>The loop body in terms of the job of the file.\<close>

lemma convert_by_extension_job:
  "convert_by_extension e dd p w st =
     (case job_input e (fs w) p of
        None \<Rightarrow> st\<lparr>outside := w\<rparr>
      | Some i \<Rightarrow>
          if spec_category p = StillImage
          then tally (convert_image_to_jpg e i (output_path dd p) w) st
          else tally (convert_to_m2ts e i (output_path dd p) w) st)"
  by (cases "spec_category p")
    (auto simp: convert_by_extension_category job_input_def output_path_def image_test
      split: option.splits)

lemma process_file_steps:
  "get_creation_date e p = Inr d \<Longrightarrow> makedirs e (join root d) (outside st) = Inr w \<Longrightarrow>
     process_file e root p st = Completed (convert_by_extension e (join root d) p w st)"
  by (simp add: process_file_def)

lemma process_file_raised:
  "process_file e root p st = Raised x st' \<Longrightarrow> st' = st"
  by (auto simp: process_file_def Let_def split: sum.splits)

lemma process_file_completed:
  assumes "process_file e root p st = Completed st'"
  obtains d w where "get_creation_date e p = Inr d"
    and "makedirs e (join root d) (outside st) = Inr w"
    and "st' = convert_by_extension e (join root d) p w st"
  using assms by (auto simp: process_file_def Let_def split: sum.splits)

lemma job_input_stable:
  "\<forall>f f'. find_associated_video e f p = find_associated_video e f' p \<Longrightarrow>
     job_input e f p = job_input e f' p"
proof -
  assume "\<forall>f f'. find_associated_video e f p = find_associated_video e f' p"
  then have "find_associated_video e f p = find_associated_video e f' p"
    by blast
  then show ?thesis
    by (simp add: job_input_def split: category.splits)
qed

section \<open>Existing outputs\<close>

lemma process_file_existing:
  assumes d: "get_creation_date e p = Inr d"
    and w: "makedirs e (join root d) (outside st) = Inr w"
    and ex: "job_input e (fs w) p \<noteq> None \<Longrightarrow> path_exists w (output_path (join root d) p)"
  shows "process_file e root p st =
     Completed (if job_input e (fs w) p \<noteq> None
                then st\<lparr>outside := w, skipped_count := skipped_count st + 1\<rparr>
                else st\<lparr>outside := w\<rparr>)"
proof (cases "job_input e (fs w) p")
  case None
  then show ?thesis
    by (simp add: process_file_steps [OF d w] convert_by_extension_job)
next
  case (Some i)
  with ex have "path_exists w (output_path (join root d) p)"
    by simp
  with Some show ?thesis
    by (simp add: process_file_steps [OF d w] convert_by_extension_job convert_image_existing
        convert_m2ts_existing tally_skipped)
qed

lemma rerun_loop:
  assumes "\<forall>p \<in> set files. \<forall>d f. get_creation_date e p = Inr d \<longrightarrow> job_input e f p \<noteq> None
             \<longrightarrow> path_exists (outside st) (output_path (join root d) p)"
    and "\<forall>p \<in> set files. \<forall>f f'. find_associated_video e f p = find_associated_video e f' p"
  shows "case process_loop e root files st of
           Completed st' \<Rightarrow>
             processed_count st' = processed_count st
             \<and> skipped_count st' = skipped_count st
                  + int (length (filter (\<lambda>p. job_input e f0 p \<noteq> None) files))
             \<and> invocations (outside st') = invocations (outside st)
             \<and> stdout (outside st') = stdout (outside st)
             \<and> (\<forall>q. fs (outside st') q = Some RegularFile \<longleftrightarrow> fs (outside st) q = Some RegularFile)
         | Raised x st' \<Rightarrow>
             invocations (outside st') = invocations (outside st)
             \<and> stdout (outside st') = stdout (outside st)
             \<and> (\<forall>q. fs (outside st') q = Some RegularFile \<longleftrightarrow> fs (outside st) q = Some RegularFile)"
  using assms
proof (induction files arbitrary: st)
  case Nil
  then show ?case by simp
next
  case (Cons p files)
  show ?case
  proof (cases "process_file e root p st")
    case (Raised x st1)
    then show ?thesis
      by (auto dest: process_file_raised)
  next
    case (Completed st1)
    then obtain d w where d: "get_creation_date e p = Inr d"
      and w: "makedirs e (join root d) (outside st) = Inr w"
      by (rule process_file_completed)
    have stable: "\<forall>f f'. find_associated_video e f p = find_associated_video e f' p"
      using Cons.prems(2) by simp
    have ex: "job_input e (fs w) p \<noteq> None \<Longrightarrow> path_exists w (output_path (join root d) p)"
    proof -
      assume job: "job_input e (fs w) p \<noteq> None"
      have "\<forall>d f. get_creation_date e p = Inr d \<longrightarrow> job_input e f p \<noteq> None
             \<longrightarrow> path_exists (outside st) (output_path (join root d) p)"
        using Cons.prems(1) by simp
      with d job have "path_exists (outside st) (output_path (join root d) p)"
        by blast
      then show ?thesis
        by (rule makedirs_effect(6) [OF w])
    qed
    have st1: "st1 = (if job_input e f0 p \<noteq> None
                then st\<lparr>outside := w, skipped_count := skipped_count st + 1\<rparr>
                else st\<lparr>outside := w\<rparr>)"
      using process_file_existing [OF d w ex] Completed job_input_stable [OF stable, of "fs w" f0]
      by simp
    have out1: "outside st1 = w"
      by (simp add: st1)
    have pre1: "\<forall>p \<in> set files. \<forall>d f. get_creation_date e p = Inr d \<longrightarrow> job_input e f p \<noteq> None
             \<longrightarrow> path_exists (outside st1) (output_path (join root d) p)"
      using Cons.prems(1) makedirs_effect(6) [OF w] out1 by simp
    have pre2: "\<forall>p \<in> set files. \<forall>f f'. find_associated_video e f p = find_associated_video e f' p"
      using Cons.prems(2) by simp
    note ih = Cons.IH [OF pre1 pre2]
    show ?thesis
    proof (cases "process_loop e root files st1")
      case (Completed st2)
      with ih \<open>process_file e root p st = Completed st1\<close> makedirs_effect(1,2,4) [OF w] show ?thesis
        by (simp add: st1 split: if_splits)
    next
      case (Raised x st2)
      with ih \<open>process_file e root p st = Completed st1\<close> makedirs_effect(1,2,4) [OF w] show ?thesis
        by (simp add: st1 split: if_splits)
    qed
  qed
qed

text \<open>
  C3. A job whose output path exists returns \<open>False\<close> with the world untouched (no encoder
  run, no write, no error line) and is counted as skipped. Hence a run over files whose
  jobs all find their outputs in place writes nothing, runs no encoder, leaves the
  processed count where it was and counts every job as skipped. (The pairing of an index
  file is taken not to depend on the directories the run itself creates.)
\<close>

theorem existing_output_is_skipped:
  assumes "\<forall>p \<in> set files. \<forall>d f. get_creation_date e p = Inr d \<longrightarrow> job_input e f p \<noteq> None
             \<longrightarrow> path_exists (outside st) (output_path (join root d) p)"
    and "\<forall>p \<in> set files. \<forall>f f'. find_associated_video e f p = find_associated_video e f' p"
  shows "(\<forall>i out w. path_exists w out \<longrightarrow>
            convert_image_to_jpg e i out w = (False, w)
            \<and> convert_to_m2ts e i out w = (False, w)
            \<and> tally (False, w) st = st\<lparr>outside := w, skipped_count := skipped_count st + 1\<rparr>)
     \<and> (case process_loop e root files st of
           Completed st' \<Rightarrow>
             processed_count st' = processed_count st
             \<and> skipped_count st' = skipped_count st
                  + int (length (filter (\<lambda>p. job_input e (fs (outside st)) p \<noteq> None) files))
             \<and> invocations (outside st') = invocations (outside st)
             \<and> stdout (outside st') = stdout (outside st)
             \<and> (\<forall>q. fs (outside st') q = Some RegularFile \<longleftrightarrow> fs (outside st) q = Some RegularFile)
         | Raised x st' \<Rightarrow>
             invocations (outside st') = invocations (outside st)
             \<and> stdout (outside st') = stdout (outside st)
             \<and> (\<forall>q. fs (outside st') q = Some RegularFile \<longleftrightarrow> fs (outside st) q = Some RegularFile))"
  using rerun_loop [OF assms, of "fs (outside st)"]
  by (simp add: convert_image_existing convert_m2ts_existing tally_skipped)

lemma card_dates:
  "get_creation_date card ''/cam/a.jpg'' = Inr ''05-01-2023''"
  "get_creation_date card ''/cam/b.png'' = Inr ''01-10-2022''"
  "get_creation_date card ''/cam/c.mts'' = Inr ''05-01-2023''"
  "get_creation_date card ''/cam/bad.jpg'' = Inr ''01-10-2022''"
  "get_creation_date card ''/cam/notes.txt'' = Inr ''01-10-2022''"
  "get_creation_date card ''/cam/BDMV/CLIPINF/LONE.CPI'' = Inr ''01-10-2022''"
  "get_creation_date card ''/cam/BDMV/CLIPINF/CLIP001.CPI'' = Inr ''01-10-2022''"
  by (simp_all add: get_creation_date_def probe_date_def ctime_date_def card_defs str_nat.simps)

lemma card_categories:
  "spec_category ''/cam/a.jpg'' = StillImage"
  "spec_category ''/cam/b.png'' = StillImage"
  "spec_category ''/cam/c.mts'' = VideoClip"
  "spec_category ''/cam/bad.jpg'' = StillImage"
  "spec_category ''/cam/notes.txt'' = Unrecognized"
  "spec_category ''/cam/BDMV/CLIPINF/LONE.CPI'' = VideoIndex"
  "spec_category ''/cam/BDMV/CLIPINF/CLIP001.CPI'' = VideoIndex"
  by (simp_all add: spec_category_def lower_def lower_char_def suffix_to_prefix)

lemma card_outputs:
  "output_path (join ''/dest'' ''05-01-2023'') ''/cam/a.jpg'' = ''/dest/05-01-2023/a.jpg''"
  "output_path (join ''/dest'' ''01-10-2022'') ''/cam/b.png'' = ''/dest/01-10-2022/b.jpg''"
  "output_path (join ''/dest'' ''05-01-2023'') ''/cam/c.mts'' = ''/dest/05-01-2023/c.m2ts''"
  "output_path (join ''/dest'' ''01-10-2022'') ''/cam/bad.jpg'' = ''/dest/01-10-2022/bad.jpg''"
  "output_path (join ''/dest'' ''01-10-2022'') ''/cam/BDMV/CLIPINF/CLIP001.CPI''
     = ''/dest/01-10-2022/CLIP001.m2ts''"
  by (simp_all add: output_path_def image_test card_categories join_def sep_def extsep_def
      splitext_def basename_def Let_def)

lemma card_pairing:
  "find_associated_video card f ''/cam/a.jpg'' = None"
  "find_associated_video card f ''/cam/b.png'' = None"
  "find_associated_video card f ''/cam/c.mts'' = None"
  "find_associated_video card f ''/cam/BDMV/CLIPINF/LONE.CPI'' = None"
  "find_associated_video card f ''/cam/BDMV/CLIPINF/CLIP001.CPI'' = Some ''/cam/BDMV/CLIP001B.MTS''"
  by (simp_all add: find_associated_video_def glob_glob_def glob1_def fnmatch_def has_magic_def
      ishidden_def dirname_def head_part_def rstrip_sep_def basename_def join_def sep_def
      bracket_body_def Let_def card_def card_scandir_def)

text \<open>The run over a destination that holds every output completes.\<close>

lemma card_rerun:
  "(case process_loop card ''/dest''
           [''/cam/a.jpg'', ''/cam/b.png'', ''/cam/BDMV/CLIPINF/LONE.CPI'', ''/cam/c.mts'']
           (fresh processed_dest) of
      Completed st \<Rightarrow> True
    | Raised x st \<Rightarrow> False)"
  by code_simp

theorem existing_output_is_skipped_witness:
  "(case process_loop card ''/dest''
           [''/cam/a.jpg'', ''/cam/b.png'', ''/cam/BDMV/CLIPINF/LONE.CPI'', ''/cam/c.mts'']
           (fresh processed_dest) of
      Completed st' \<Rightarrow>
        processed_count st' = 0 \<and> skipped_count st' = 3 \<and> invocations (outside st') = []
        \<and> stdout (outside st') = []
    | Raised x st' \<Rightarrow> False)
   \<and> path_exists processed_dest ''/dest/05-01-2023/a.jpg''
   \<and> convert_image_to_jpg card ''/cam/a.jpg'' ''/dest/05-01-2023/a.jpg'' processed_dest
       = (False, processed_dest)"
proof -
  have outputs: "\<forall>p \<in> set [''/cam/a.jpg'', ''/cam/b.png'', ''/cam/BDMV/CLIPINF/LONE.CPI'', ''/cam/c.mts''].
      \<forall>d f. get_creation_date card p = Inr d \<longrightarrow> job_input card f p \<noteq> None \<longrightarrow>
        path_exists (outside (fresh processed_dest)) (output_path (join ''/dest'' d) p)"
    by (simp add: card_dates card_outputs job_input_def card_categories card_pairing
        fresh_def path_exists_def processed_dest_def)
  have stable: "\<forall>p \<in> set [''/cam/a.jpg'', ''/cam/b.png'', ''/cam/BDMV/CLIPINF/LONE.CPI'', ''/cam/c.mts''].
      \<forall>f f'. find_associated_video card f p = find_associated_video card f' p"
    by (simp add: card_pairing)
  have jobs: "length (filter (\<lambda>p. job_input card (fs (outside (fresh processed_dest))) p \<noteq> None)
      [''/cam/a.jpg'', ''/cam/b.png'', ''/cam/BDMV/CLIPINF/LONE.CPI'', ''/cam/c.mts'']) = 3"
    by (simp add: job_input_def card_categories card_pairing)
  have here: "path_exists processed_dest ''/dest/05-01-2023/a.jpg''"
    by (simp add: path_exists_def processed_dest_def)
  have start: "invocations (outside (fresh processed_dest)) = []"
    "stdout (outside (fresh processed_dest)) = []"
    "processed_count (fresh processed_dest) = 0" "skipped_count (fresh processed_dest) = 0"
    by (simp_all add: fresh_def processed_dest_def)
  note all = existing_output_is_skipped [OF outputs stable, unfolded jobs start]
  from all here
  have conv: "convert_image_to_jpg card ''/cam/a.jpg'' ''/dest/05-01-2023/a.jpg'' processed_dest
       = (False, processed_dest)"
    by blast
  from all card_rerun
  have "case process_loop card ''/dest''
           [''/cam/a.jpg'', ''/cam/b.png'', ''/cam/BDMV/CLIPINF/LONE.CPI'', ''/cam/c.mts'']
           (fresh processed_dest) of
      Completed st' \<Rightarrow>
        processed_count st' = 0 \<and> skipped_count st' = 3 \<and> invocations (outside st') = []
        \<and> stdout (outside st') = []
    | Raised x st' \<Rightarrow> False"
    by (simp split: result.splits del: process_loop.simps)
  with here conv show ?thesis
    by blast
qed

section \<open>Index files\<close>

lemma index_test: "endswith (lower p) ''.cpi'' \<longleftrightarrow> spec_category p = VideoIndex"
  by (simp add: spec_category_cases endswith_suffix)

lemma lower_char_dot: "lower_char x = CHR ''.'' \<Longrightarrow> x = CHR ''.''"
  by (simp add: lower_char_def split: if_splits)

lemma lower_char_letter:
  "lower_char x = CHR ''c'' \<Longrightarrow> x = CHR ''c'' \<or> x = CHR ''C''"
  "lower_char x = CHR ''p'' \<Longrightarrow> x = CHR ''p'' \<or> x = CHR ''P''"
  "lower_char x = CHR ''i'' \<Longrightarrow> x = CHR ''i'' \<or> x = CHR ''I''"
  by (simp_all add: lower_char_def split: if_splits)

lemma endswith_cpi_shape:
  assumes "endswith (lower p) ''.cpi''"
  obtains zs b c d where "p = zs @ [CHR ''.'', b, c, d]"
    and "b = CHR ''c'' \<or> b = CHR ''C''" and "c = CHR ''p'' \<or> c = CHR ''P''"
    and "d = CHR ''i'' \<or> d = CHR ''I''"
proof -
  from assms obtain ys where ys: "lower p = ys @ ''.cpi''"
    by (auto simp: endswith_suffix suffix_def)
  then have "map lower_char p = ys @ ''.cpi''"
    by (simp add: lower_def)
  then obtain zs t where p: "p = zs @ t" and t: "map lower_char t = ''.cpi''"
    by (auto simp: map_eq_append_conv)
  from t obtain a b c d where abcd: "t = [a, b, c, d]" "lower_char a = CHR ''.''"
    "lower_char b = CHR ''c''" "lower_char c = CHR ''p''" "lower_char d = CHR ''i''"
    by (auto simp: map_eq_Cons_conv)
  show ?thesis
    using that [of zs b c d] p abcd lower_char_dot [of a] lower_char_letter [of b]
      lower_char_letter [of c] lower_char_letter [of d]
    by simp
qed

text \<open>
  For an index file the stem that \<open>splitext\<close> gives is the file name without its last four
  characters, unless the name is dots only before them.
\<close>

lemma index_stem:
  assumes "endswith (lower p) ''.cpi''"
    and "list_ex (\<lambda>c. c \<noteq> extsep) (take (length (basename p) - 4) (basename p))"
  shows "fst (splitext (basename p)) = take (length (basename p) - 4) (basename p)"
proof -
  from assms(1) obtain zs b c d where p: "p = zs @ [CHR ''.'', b, c, d]"
    and b: "b = CHR ''c'' \<or> b = CHR ''C''" and c: "c = CHR ''p'' \<or> c = CHR ''P''"
    and d: "d = CHR ''i'' \<or> d = CHR ''I''"
    by (rule endswith_cpi_shape)
  have name: "basename p = basename zs @ [CHR ''.'', b, c, d]"
    using b c d by (auto simp: p basename_def sep_def)
  have again: "basename (basename p) = basename p"
    by (simp add: basename_def)
  have ext: "extsep # rev (takeWhile (\<lambda>x. x \<noteq> extsep) (rev (basename p))) = [CHR ''.'', b, c, d]"
    using b c d by (auto simp: name extsep_def)
  show ?thesis
    using assms(2) by (simp add: splitext_def Let_def again ext) (simp add: name extsep_def)
qed

text \<open>
  C5. An index file for which the pairer finds no clip is dropped: once its date directory
  is made, the loop goes on with both counters, the encoder's runs, standard output and
  every regular file as they were.
\<close>

theorem unpaired_index_is_dropped:
  assumes "endswith (lower p) ''.cpi''"
    and "get_creation_date e p = Inr d"
    and "makedirs e (join root d) (outside st) = Inr w"
    and "find_associated_video e (fs w) p = None"
  shows "process_file e root p st = Completed (st\<lparr>outside := w\<rparr>)
     \<and> processed_count (st\<lparr>outside := w\<rparr>) = processed_count st
     \<and> skipped_count (st\<lparr>outside := w\<rparr>) = skipped_count st
     \<and> invocations w = invocations (outside st)
     \<and> stdout w = stdout (outside st)
     \<and> (\<forall>q. fs w q = Some RegularFile \<longleftrightarrow> fs (outside st) q = Some RegularFile)"
proof -
  have "job_input e (fs w) p = None"
    using assms(1,4) by (simp add: job_input_def index_test)
  then have "process_file e root p st = Completed (st\<lparr>outside := w\<rparr>)"
    by (simp add: process_file_steps [OF assms(2,3)] convert_by_extension_job)
  then show ?thesis
    using makedirs_effect(1,2,4) [OF assms(3)] by simp
qed

lemma card_ancestors: "ancestors ''/dest/01-10-2022'' = [''/dest'', ''/'']"
  by (simp add: ancestors.simps dirname_def head_part_def rstrip_sep_def sep_def Let_def)

lemma card_makedirs:
  "makedirs card (join ''/dest'' ''01-10-2022'') (outside (fresh empty_dest)) = Inr dated_dest"
proof -
  have name: "join ''/dest'' ''01-10-2022'' = ''/dest/01-10-2022''"
    by (simp add: join_def sep_def)
  show ?thesis
    unfolding name
    by (simp add: makedirs_def card_ancestors dated_dest_def fresh_def empty_dest_def card_def)
      (rule ext, simp add: empty_dest_def)
qed

lemma dated_dest_fields:
  "invocations dated_dest = []" "stdout dated_dest = []"
  "fs dated_dest ''/dest/01-10-2022/CLIP001.m2ts'' = None"
  "fs dated_dest ''/dest/01-10-2022/bad.jpg'' = None"
  "fs dated_dest ''/dest/01-10-2022'' = Some Directory"
  by (simp_all add: dated_dest_def empty_dest_def)

theorem unpaired_index_is_dropped_witness:
  "endswith (lower ''/cam/BDMV/CLIPINF/LONE.CPI'') ''.cpi''
   \<and> get_creation_date card ''/cam/BDMV/CLIPINF/LONE.CPI'' = Inr ''01-10-2022''
   \<and> find_associated_video card (fs dated_dest) ''/cam/BDMV/CLIPINF/LONE.CPI'' = None
   \<and> process_file card ''/dest'' ''/cam/BDMV/CLIPINF/LONE.CPI'' (fresh empty_dest)
       = Completed ((fresh empty_dest)\<lparr>outside := dated_dest\<rparr>)"
proof -
  have cpi: "endswith (lower ''/cam/BDMV/CLIPINF/LONE.CPI'') ''.cpi''"
    by (simp add: index_test card_categories)
  have none: "find_associated_video card (fs dated_dest) ''/cam/BDMV/CLIPINF/LONE.CPI'' = None"
    by (rule card_pairing)
  from unpaired_index_is_dropped [OF cpi card_dates(6) card_makedirs none]
  have "process_file card ''/dest'' ''/cam/BDMV/CLIPINF/LONE.CPI'' (fresh empty_dest)
       = Completed ((fresh empty_dest)\<lparr>outside := dated_dest\<rparr>)"
    by (rule conjunct1)
  with cpi card_dates(6) none show ?thesis
    by blast
qed

text \<open>
  C10. For an index file with a paired clip the output path is built from the index file
  alone: the folder is the date resolved for the index file, the name is the index file's
  stem with \<open>.m2ts\<close>; the clip is only the encoder's input.
\<close>

theorem index_output_from_index_file:
  assumes "endswith (lower p) ''.cpi''"
    and "get_creation_date e p = Inr d"
    and "makedirs e (join root d) (outside st) = Inr w"
    and "find_associated_video e (fs w) p = Some v"
    and "v \<noteq> []"
  shows "process_file e root p st
         = Completed (tally (convert_to_m2ts e v
             (join (join root d) (fst (splitext (basename p)) @ ''.m2ts'')) w) st)
     \<and> (\<not> path_exists w (join (join root d) (fst (splitext (basename p)) @ ''.m2ts''))
        \<longrightarrow> invocations (snd (convert_to_m2ts e v
                (join (join root d) (fst (splitext (basename p)) @ ''.m2ts'')) w))
            = invocations w
              @ [(ToM2ts, v, join (join root d) (fst (splitext (basename p)) @ ''.m2ts''))])
     \<and> (list_ex (\<lambda>c. c \<noteq> extsep) (take (length (basename p) - 4) (basename p))
        \<longrightarrow> fst (splitext (basename p)) = take (length (basename p) - 4) (basename p))"
proof (intro conjI impI)
  have "spec_category p = VideoIndex"
    using assms(1) by (simp add: index_test)
  then show "process_file e root p st
         = Completed (tally (convert_to_m2ts e v
             (join (join root d) (fst (splitext (basename p)) @ ''.m2ts'')) w) st)"
    using assms(4,5)
    by (simp add: process_file_steps [OF assms(2,3)] convert_by_extension_category)
next
  assume "\<not> path_exists w (join (join root d) (fst (splitext (basename p)) @ ''.m2ts''))"
  then show "invocations (snd (convert_to_m2ts e v
                (join (join root d) (fst (splitext (basename p)) @ ''.m2ts'')) w))
            = invocations w
              @ [(ToM2ts, v, join (join root d) (fst (splitext (basename p)) @ ''.m2ts''))]"
    by (simp add: convert_to_m2ts_def split: run_outcome.splits)
next
  assume "list_ex (\<lambda>c. c \<noteq> extsep) (take (length (basename p) - 4) (basename p))"
  with assms(1) show "fst (splitext (basename p)) = take (length (basename p) - 4) (basename p)"
    by (rule index_stem)
qed

theorem index_output_from_index_file_witness:
  "endswith (lower ''/cam/BDMV/CLIPINF/CLIP001.CPI'') ''.cpi''
   \<and> get_creation_date card ''/cam/BDMV/CLIPINF/CLIP001.CPI'' = Inr ''01-10-2022''
   \<and> find_associated_video card (fs dated_dest) ''/cam/BDMV/CLIPINF/CLIP001.CPI''
       = Some ''/cam/BDMV/CLIP001B.MTS''
   \<and> fst (splitext (basename ''/cam/BDMV/CLIPINF/CLIP001.CPI'')) = ''CLIP001''
   \<and> process_file card ''/dest'' ''/cam/BDMV/CLIPINF/CLIP001.CPI'' (fresh empty_dest)
       = Completed (tally (convert_to_m2ts card ''/cam/BDMV/CLIP001B.MTS''
           ''/dest/01-10-2022/CLIP001.m2ts'' dated_dest) (fresh empty_dest))
   \<and> invocations (snd (convert_to_m2ts card ''/cam/BDMV/CLIP001B.MTS''
           ''/dest/01-10-2022/CLIP001.m2ts'' dated_dest))
       = [(ToM2ts, ''/cam/BDMV/CLIP001B.MTS'', ''/dest/01-10-2022/CLIP001.m2ts'')]"
proof -
  have cpi: "endswith (lower ''/cam/BDMV/CLIPINF/CLIP001.CPI'') ''.cpi''"
    by (simp add: index_test card_categories)
  have pair: "find_associated_video card (fs dated_dest) ''/cam/BDMV/CLIPINF/CLIP001.CPI''
      = Some ''/cam/BDMV/CLIP001B.MTS''"
    by (rule card_pairing)
  have ne: "''/cam/BDMV/CLIP001B.MTS'' \<noteq> []"
    by simp
  have stem: "fst (splitext (basename ''/cam/BDMV/CLIPINF/CLIP001.CPI'')) = ''CLIP001''"
    by (simp add: splitext_def basename_def sep_def extsep_def Let_def)
  have out: "join (join ''/dest'' ''01-10-2022'') (''CLIP001'' @ ''.m2ts'')
      = ''/dest/01-10-2022/CLIP001.m2ts''"
    by (simp add: join_def sep_def)
  have fresh_path: "\<not> path_exists dated_dest ''/dest/01-10-2022/CLIP001.m2ts''"
    by (simp add: path_exists_def dated_dest_fields)
  note inst = index_output_from_index_file [OF cpi card_dates(7) card_makedirs pair ne,
      unfolded stem out dated_dest_fields(1) append_Nil]
  from inst fresh_path cpi card_dates(7) pair stem show ?thesis
    by blast
qed

section \<open>Encoder failures\<close>





section \<open>Date folders\<close>

lemma tally_outside: "outside (tally r st) = snd r"
  by (simp add: tally_def)

lemma convert_image_effect:
  "fs w q = Some Directory \<Longrightarrow> fs (snd (convert_image_to_jpg e i out w)) q = Some Directory"
  "invocations (snd (convert_image_to_jpg e i out w)) = invocations w
     \<or> invocations (snd (convert_image_to_jpg e i out w)) = invocations w @ [(ToJpg, i, out)]"
  by (auto simp: convert_image_to_jpg_def path_exists_def split: run_outcome.splits)

lemma convert_m2ts_effect:
  "fs w q = Some Directory \<Longrightarrow> fs (snd (convert_to_m2ts e i out w)) q = Some Directory"
  "invocations (snd (convert_to_m2ts e i out w)) = invocations w
     \<or> invocations (snd (convert_to_m2ts e i out w)) = invocations w @ [(ToM2ts, i, out)]"
  by (auto simp: convert_to_m2ts_def path_exists_def split: run_outcome.splits)

lemma convert_by_extension_effect:
  "fs w q = Some Directory \<Longrightarrow> fs (outside (convert_by_extension e dd p w st)) q = Some Directory"
  "invocations (outside (convert_by_extension e dd p w st)) = invocations w
     \<or> (\<exists>c i. invocations (outside (convert_by_extension e dd p w st))
              = invocations w @ [(c, i, output_path dd p)])"
proof -
  show "fs w q = Some Directory \<Longrightarrow>
      fs (outside (convert_by_extension e dd p w st)) q = Some Directory"
    by (simp add: convert_by_extension_job tally_outside convert_image_effect(1)
        convert_m2ts_effect(1) split: option.splits)
  show "invocations (outside (convert_by_extension e dd p w st)) = invocations w
     \<or> (\<exists>c i. invocations (outside (convert_by_extension e dd p w st))
              = invocations w @ [(c, i, output_path dd p)])"
  proof (cases "job_input e (fs w) p")
    case None
    then show ?thesis
      by (simp add: convert_by_extension_job)
  next
    case (Some i)
    then show ?thesis
      using convert_image_effect(2) [of e i "output_path dd p" w]
        convert_m2ts_effect(2) [of e i "output_path dd p" w]
      by (auto simp: convert_by_extension_job tally_outside)
  qed
qed

lemma basename_no_sep: "sep \<notin> set (basename p)"
  by (auto simp: basename_def dest: set_takeWhileD)

lemma splitext_stem_subset: "set (fst (splitext q)) \<subseteq> set q"
  by (auto simp: splitext_def Let_def dest: in_set_takeD)

lemma output_path_in_folder:
  "\<exists>n. sep \<notin> set n \<and> output_path dd p = join dd n"
proof -
  have "sep \<notin> set (fst (splitext (basename p)))"
    using splitext_stem_subset [of "basename p"] basename_no_sep [of p] by blast
  then have "sep \<notin> set (fst (splitext (basename p)) @
       (if endswith_any (lower p) [''.jpg'', ''.jpeg'', ''.png'', ''.bmp'', ''.tiff'']
        then ''.jpg'' else ''.m2ts''))"
    by (simp add: sep_def)
  then show ?thesis
    unfolding output_path_def by blast
qed

lemma process_file_folder:
  assumes "process_file e root p st = Completed st'"
  shows "\<exists>d. get_creation_date e p = Inr d \<and> fs (outside st') (join root d) = Some Directory
     \<and> (invocations (outside st') = invocations (outside st)
        \<or> (\<exists>c i n. sep \<notin> set n
              \<and> invocations (outside st') = invocations (outside st) @ [(c, i, join (join root d) n)]))"
proof -
  from assms obtain d w where d: "get_creation_date e p = Inr d"
    and w: "makedirs e (join root d) (outside st) = Inr w"
    and st': "st' = convert_by_extension e (join root d) p w st"
    by (rule process_file_completed)
  have dir: "fs (outside st') (join root d) = Some Directory"
    unfolding st' using makedirs_effect(3) [OF w] by (rule convert_by_extension_effect(1))
  have "invocations (outside st') = invocations (outside st)
        \<or> (\<exists>c i n. sep \<notin> set n
              \<and> invocations (outside st') = invocations (outside st) @ [(c, i, join (join root d) n)])"
    using convert_by_extension_effect(2) [of e "join root d" p w st]
      output_path_in_folder [of "join root d" p] makedirs_effect(1) [OF w]
    unfolding st' by metis
  with d dir show ?thesis
    by blast
qed

lemma process_file_keeps_dirs:
  assumes "process_file e root p st = Completed st'" and "fs (outside st) q = Some Directory"
  shows "fs (outside st') q = Some Directory"
proof -
  from assms(1) obtain d w where w: "makedirs e (join root d) (outside st) = Inr w"
    and st': "st' = convert_by_extension e (join root d) p w st"
    by (rule process_file_completed)
  show ?thesis
    unfolding st' using makedirs_effect(5) [OF w assms(2)] by (rule convert_by_extension_effect(1))
qed

lemma process_loop_keeps_dirs:
  "process_loop e root files st = Completed st' \<Longrightarrow> fs (outside st) q = Some Directory \<Longrightarrow>
     fs (outside st') q = Some Directory"
proof (induction files arbitrary: st)
  case Nil
  then show ?case by simp
next
  case (Cons p files)
  then show ?case
    by (auto split: result.splits dest: process_file_keeps_dirs)
qed

lemma process_loop_folders:
  "process_loop e root files st = Completed st' \<Longrightarrow>
     \<forall>p \<in> set files. \<exists>d. get_creation_date e p = Inr d
        \<and> fs (outside st') (join root d) = Some Directory"
proof (induction files arbitrary: st)
  case Nil
  then show ?case by simp
next
  case (Cons p files)
  from Cons.prems obtain st1 where one: "process_file e root p st = Completed st1"
    and rest: "process_loop e root files st1 = Completed st'"
    by (auto split: result.splits)
  from process_file_folder [OF one] obtain d where d: "get_creation_date e p = Inr d"
    and dir: "fs (outside st1) (join root d) = Some Directory"
    by blast
  have "fs (outside st') (join root d) = Some Directory"
    using rest dir by (rule process_loop_keeps_dirs)
  with d Cons.IH [OF rest] show ?case
    by auto
qed

lemma worker_convert_outside:
  "worker_convert e dd p w = outside (convert_by_extension e dd p w st)"
  by (simp add: worker_convert_def convert_by_extension_def tally_outside Let_def
      split: option.splits)

text \<open>
  C8. The folder of a file is \<open>join root d\<close> for its resolved date \<open>d\<close> and nothing else: two
  files with the same date, wherever they lie in the source tree, have the same folder
  made for them, and every output the encoder is asked to write for them is an entry of
  that folder.
\<close>

theorem same_date_same_folder:
  assumes "get_creation_date e p1 = Inr d" and "get_creation_date e p2 = Inr d"
  shows "\<forall>p \<in> {p1, p2}. \<forall>st st'. process_file e root p st = Completed st' \<longrightarrow>
           fs (outside st') (join root d) = Some Directory
           \<and> (invocations (outside st') = invocations (outside st)
              \<or> (\<exists>c i n. sep \<notin> set n
                    \<and> invocations (outside st')
                        = invocations (outside st) @ [(c, i, join (join root d) n)]))"
proof (intro ballI allI impI)
  fix p st st'
  assume p: "p \<in> {p1, p2}" and run: "process_file e root p st = Completed st'"
  from p assms have "get_creation_date e p = Inr d"
    by auto
  with process_file_folder [OF run]
  show "fs (outside st') (join root d) = Some Directory
           \<and> (invocations (outside st') = invocations (outside st)
              \<or> (\<exists>c i n. sep \<notin> set n
                    \<and> invocations (outside st')
                        = invocations (outside st) @ [(c, i, join (join root d) n)]))"
    by auto
qed

lemma card_step_notes:
  "process_file card ''/dest'' ''/cam/notes.txt'' (fresh empty_dest)
     = Completed ((fresh empty_dest)\<lparr>outside := dated_dest\<rparr>)"
  by (simp add: process_file_steps [OF card_dates(5) card_makedirs]
      convert_by_extension_category card_categories)

lemma card_step_index:
  "process_file card ''/dest'' ''/cam/BDMV/CLIPINF/CLIP001.CPI'' (fresh empty_dest)
     = Completed (tally (convert_to_m2ts card ''/cam/BDMV/CLIP001B.MTS''
         (output_path (join ''/dest'' ''01-10-2022'') ''/cam/BDMV/CLIPINF/CLIP001.CPI'')
         dated_dest) (fresh empty_dest))"
  by (simp add: process_file_steps [OF card_dates(7) card_makedirs]
      convert_by_extension_job job_input_def card_categories card_pairing)

theorem same_date_same_folder_witness:
  "get_creation_date card ''/cam/notes.txt'' = Inr ''01-10-2022''
   \<and> get_creation_date card ''/cam/BDMV/CLIPINF/CLIP001.CPI'' = Inr ''01-10-2022''
   \<and> fs (outside ((fresh empty_dest)\<lparr>outside := dated_dest\<rparr>)) (join ''/dest'' ''01-10-2022'')
       = Some Directory
   \<and> fs (outside (tally (convert_to_m2ts card ''/cam/BDMV/CLIP001B.MTS''
         (output_path (join ''/dest'' ''01-10-2022'') ''/cam/BDMV/CLIPINF/CLIP001.CPI'')
         dated_dest) (fresh empty_dest))) (join ''/dest'' ''01-10-2022'')
       = Some Directory"
proof -
  note inst = same_date_same_folder [OF card_dates(5) card_dates(7), of "''/dest''"]
  from inst card_step_notes
  have one: "fs (outside ((fresh empty_dest)\<lparr>outside := dated_dest\<rparr>))
      (join ''/dest'' ''01-10-2022'') = Some Directory"
    by blast
  from inst card_step_index
  have two: "fs (outside (tally (convert_to_m2ts card ''/cam/BDMV/CLIP001B.MTS''
         (output_path (join ''/dest'' ''01-10-2022'') ''/cam/BDMV/CLIPINF/CLIP001.CPI'')
         dated_dest) (fresh empty_dest))) (join ''/dest'' ''01-10-2022'') = Some Directory"
    by blast
  from one two card_dates(5) card_dates(7) show ?thesis
    by blast
qed

text \<open>
  C9. The date is resolved and its directory made for every file before the extension is
  looked at: a step that completes has made the directory whatever the file's category, a
  failure of the resolver ends the step whatever the category, and for an unrecognized
  file the directory is all the step does. So a completed run has made a date directory
  for every file of the list. The worker of the graphical front end does the same.
\<close>

theorem date_directory_made_for_every_file:
  "(process_file e root p st = Completed st'
     \<longrightarrow> (\<exists>d. get_creation_date e p = Inr d
              \<and> fs (outside st') (join root d) = Some Directory))
   \<and> (get_creation_date e p = Inl x \<longrightarrow> process_file e root p st = Raised x st)
   \<and> (spec_category p = Unrecognized \<and> get_creation_date e p = Inr d
        \<and> makedirs e (join root d) (outside st) = Inr w
     \<longrightarrow> process_file e root p st = Completed (st\<lparr>outside := w\<rparr>)
         \<and> fs w (join root d) = Some Directory)
   \<and> (process_loop e root files st = Completed st''
     \<longrightarrow> (\<forall>q \<in> set files. \<exists>d. get_creation_date e q = Inr d
              \<and> fs (outside st'') (join root d) = Some Directory))
   \<and> (worker_file e root p w0 = Inr w'
     \<longrightarrow> (\<exists>d. get_creation_date e p = Inr d \<and> fs w' (join root d) = Some Directory))
   \<and> (get_creation_date e p = Inl x \<longrightarrow> worker_file e root p w0 = Inl x)"
proof (intro conjI impI)
  assume "process_file e root p st = Completed st'"
  from process_file_folder [OF this]
  show "\<exists>d. get_creation_date e p = Inr d \<and> fs (outside st') (join root d) = Some Directory"
    by blast
next
  assume "get_creation_date e p = Inl x"
  then show "process_file e root p st = Raised x st"
    by (simp add: process_file_def)
next
  assume a: "spec_category p = Unrecognized \<and> get_creation_date e p = Inr d
        \<and> makedirs e (join root d) (outside st) = Inr w"
  then show "process_file e root p st = Completed (st\<lparr>outside := w\<rparr>)"
    by (simp add: process_file_def convert_by_extension_category)
  from a have "makedirs e (join root d) (outside st) = Inr w"
    by simp
  then show "fs w (join root d) = Some Directory"
    by (rule makedirs_effect(3))
next
  assume "process_loop e root files st = Completed st''"
  then show "\<forall>q \<in> set files. \<exists>d. get_creation_date e q = Inr d
              \<and> fs (outside st'') (join root d) = Some Directory"
    by (rule process_loop_folders)
next
  assume a: "worker_file e root p w0 = Inr w'"
  then obtain d w where d: "get_creation_date e p = Inr d"
    and w: "makedirs e (join root d) w0 = Inr w"
    and w': "w' = worker_convert e (join root d) p w"
    by (auto simp: worker_file_def Let_def split: sum.splits)
  have "fs w' (join root d) = Some Directory"
    unfolding w' worker_convert_outside [of e "join root d" p w "fresh w0"]
    using makedirs_effect(3) [OF w] by (rule convert_by_extension_effect(1))
  with d show "\<exists>d. get_creation_date e p = Inr d \<and> fs w' (join root d) = Some Directory"
    by blast
next
  assume "get_creation_date e p = Inl x"
  then show "worker_file e root p w0 = Inl x"
    by (simp add: worker_file_def)
qed

theorem date_directory_made_for_every_file_witness:
  "spec_category ''/cam/notes.txt'' = Unrecognized
   \<and> get_creation_date card ''/cam/notes.txt'' = Inr ''01-10-2022''
   \<and> fs (outside (fresh empty_dest)) (join ''/dest'' ''01-10-2022'') = None
   \<and> process_file card ''/dest'' ''/cam/notes.txt'' (fresh empty_dest)
       = Completed ((fresh empty_dest)\<lparr>outside := dated_dest\<rparr>)
   \<and> fs dated_dest (join ''/dest'' ''01-10-2022'') = Some Directory"
proof -
  have before: "fs (outside (fresh empty_dest)) (join ''/dest'' ''01-10-2022'') = None"
    by (simp add: fresh_def empty_dest_def join_def sep_def)
  from date_directory_made_for_every_file [of card "''/dest''" "''/cam/notes.txt''"
      "fresh empty_dest" "(fresh empty_dest)\<lparr>outside := dated_dest\<rparr>" OSError_getctime
      "''01-10-2022''" dated_dest "[]" "fresh empty_dest" empty_dest dated_dest]
    card_categories(5) card_dates(5) card_makedirs
  have "process_file card ''/dest'' ''/cam/notes.txt'' (fresh empty_dest)
       = Completed ((fresh empty_dest)\<lparr>outside := dated_dest\<rparr>)
     \<and> fs dated_dest (join ''/dest'' ''01-10-2022'') = Some Directory"
    by blast
  with before card_categories(5) card_dates(5) show ?thesis
    by blast
qed

section \<open>The companion pairer\<close>

subsection \<open>Splitting the pattern path\<close>







subsection \<open>Matching a name against \<open>NAME*.MTS\<close>\<close>










subsection \<open>What the pairer returns\<close>












section \<open>The specification's end-to-end scenario\<close>

text \<open>
  A source tree with \<open>a.jpg\<close> and \<open>c.mts\<close> (metadata date 2023-05-01) and \<open>b.png\<close> (no
  metadata, file system date 2022-01-10), processed into an empty destination.
\<close>

lemma card_run:
  "(case process_media_files card \<lparr>camera_path = ''/cam'', destination_root = ''/dest''\<rparr> empty_dest of
      Completed st \<Rightarrow>
        invocations (outside st)
          = [(ToJpg, ''/cam/a.jpg'', ''/dest/05-01-2023/a.jpg''),
             (ToJpg, ''/cam/b.png'', ''/dest/01-10-2022/b.jpg''),
             (ToM2ts, ''/cam/c.mts'', ''/dest/05-01-2023/c.m2ts'')]
        \<and> stdout (outside st)
          = [[], ''Processing complete!'', ''Processed 3 files'',
             ''Skipped 0 files (already existed or errors)'', ''Media organized in: /dest'']
        \<and> processed_count st = 3 \<and> skipped_count st = 0
    | Raised x st \<Rightarrow> False)"
  by code_simp

end
